theory Spec2Isabelle
  imports Main
begin

section \<open>Python values used by the driver\<close>

text \<open>
  The exceptions that can arise inside the methods of \<^verbatim>\<open>VNADriver\<close>
  (\<^verbatim>\<open>vna_driver.py\<close>). \<^verbatim>\<open>Vxi11Exception\<close> is the instrument library's own
  exception class; \<^verbatim>\<open>OSError\<close> is the class of socket failures and timeouts
  (\<^verbatim>\<open>socket.error\<close>, imported by the module as \<^verbatim>\<open>error\<close>, is the same class in Python 3).
  \<^verbatim>\<open>ValueError\<close> comes from \<^verbatim>\<open>int(...)\<close>, \<^verbatim>\<open>IndexError\<close> from \<^verbatim>\<open>response[1]\<close>,
  and \<^verbatim>\<open>AttributeError\<close> from calling a method on \<^verbatim>\<open>None\<close>. A failed \<^verbatim>\<open>assert\<close> is
  caught inside \<^verbatim>\<open>connect_to_vna\<close> and never leaves it, so it needs no constructor.
\<close>

datatype exn = Vxi11Exception | OSError | ValueError | IndexError | AttributeError

subsection \<open>\<^verbatim>\<open>str.replace(ch, '')\<close> and \<^verbatim>\<open>str.split(ch)\<close>\<close>

definition str_remove :: "char \<Rightarrow> string \<Rightarrow> string" where
  "str_remove ch r = filter (\<lambda>c. c \<noteq> ch) r"

fun str_split :: "char \<Rightarrow> string \<Rightarrow> string list" where
  "str_split ch [] = [[]]"
| "str_split ch (c # cs) =
     (if c = ch then [] # str_split ch cs
      else (case str_split ch cs of
              [] \<Rightarrow> [[c]]
            | f # fs \<Rightarrow> (c # f) # fs))"

subsection \<open>\<^verbatim>\<open>str(n)\<close> for an integer\<close>

definition digit_char :: "nat \<Rightarrow> char" where
  "digit_char d = ''0123456789'' ! d"

fun digits_of :: "nat \<Rightarrow> string" where
  "digits_of n =
     (if n < 10 then [digit_char n]
      else digits_of (n div 10) @ [digit_char (n mod 10)])"

declare digits_of.simps [simp del]

definition py_str :: "int \<Rightarrow> string" where
  "py_str i = (if i < 0 then CHR ''-'' # digits_of (nat (- i)) else digits_of (nat i))"

subsection \<open>\<^verbatim>\<open>int(text)\<close>\<close>

text \<open>
  \<^verbatim>\<open>int\<close> on ASCII text: surrounding white space is dropped, one sign is allowed, then
  decimal digits follow, where a single underscore may stand between two digits. Anything
  else raises \<^verbatim>\<open>ValueError\<close>. The bound that recent interpreters put on the number of
  digits is left out.
\<close>

definition digit_val :: "char \<Rightarrow> nat option" where
  "digit_val c =
     (let n = (of_char c :: nat) in
      if 48 \<le> n \<and> n \<le> 57 then Some (n - 48) else None)"

definition is_space :: "char \<Rightarrow> bool" where
  "is_space c = (c \<in> set [CHR '' '', CHR 0x09, CHR 0x0A, CHR 0x0B, CHR 0x0C, CHR 0x0D])"

definition str_strip :: "string \<Rightarrow> string" where
  "str_strip r = rev (dropWhile is_space (rev (dropWhile is_space r)))"

fun parse_digits :: "nat \<Rightarrow> string \<Rightarrow> nat option" where
  "parse_digits acc [] = Some acc"
| "parse_digits acc (c # cs) =
     (case digit_val c of
        Some d \<Rightarrow> parse_digits (acc * 10 + d) cs
      | None \<Rightarrow>
          (if c = CHR ''_'' then
             (case cs of
                [] \<Rightarrow> None
              | c' # cs' \<Rightarrow>
                  (case digit_val c' of
                     Some d \<Rightarrow> parse_digits (acc * 10 + d) cs'
                   | None \<Rightarrow> None))
           else None))"

definition parse_unsigned :: "string \<Rightarrow> nat option" where
  "parse_unsigned r =
     (case r of
        [] \<Rightarrow> None
      | c # cs \<Rightarrow> (case digit_val c of Some d \<Rightarrow> parse_digits d cs | None \<Rightarrow> None))"

definition py_int :: "string \<Rightarrow> exn + int" where
  "py_int r =
     (case str_strip r of
        [] \<Rightarrow> Inl ValueError
      | c # cs \<Rightarrow>
          (if c = CHR ''-'' then
             (case parse_unsigned cs of Some n \<Rightarrow> Inr (- int n) | None \<Rightarrow> Inl ValueError)
           else if c = CHR ''+'' then
             (case parse_unsigned cs of Some n \<Rightarrow> Inr (int n) | None \<Rightarrow> Inl ValueError)
           else
             (case parse_unsigned (c # cs) of Some n \<Rightarrow> Inr (int n) | None \<Rightarrow> Inl ValueError)))"

section \<open>The instrument transport\<close>

text \<open>
  The \<^verbatim>\<open>vxi11\<close> library is not part of the repository, so the transport is a parameter:
  a function from the calls made so far and the call being made to the outcome of that
  call. An outcome is a reply, a \<^verbatim>\<open>Vxi11Exception\<close> or a socket failure; these are the
  classes the driver's own \<^verbatim>\<open>except\<close> clauses name. Every call, failed or not, is
  appended to the log of calls.
\<close>

type_synonym handle = nat

datatype call = Open string | Ask handle string | Write handle string | Close handle

datatype outcome = Reply string | Vxi11Failure | SocketFailure

type_synonym world = "call list"

type_synonym transport = "call list \<Rightarrow> call \<Rightarrow> outcome"

definition perform :: "transport \<Rightarrow> call \<Rightarrow> world \<Rightarrow> (exn + string) \<times> world" where
  "perform tr c w =
     (case tr w c of
        Reply r \<Rightarrow> (Inr r, w @ [c])
      | Vxi11Failure \<Rightarrow> (Inl Vxi11Exception, w @ [c])
      | SocketFailure \<Rightarrow> (Inl OSError, w @ [c]))"

text \<open>\<^verbatim>\<open>Instrument(ip_addr)\<close>: a fresh handle, numbered by the position of the call.\<close>

definition Instrument :: "transport \<Rightarrow> string \<Rightarrow> world \<Rightarrow> (exn + handle) \<times> world" where
  "Instrument tr ip_addr w =
     (case perform tr (Open ip_addr) w of
        (Inl e, w') \<Rightarrow> (Inl e, w')
      | (Inr _, w') \<Rightarrow> (Inr (length w), w'))"

text \<open>
  \<^verbatim>\<open>self.__instrument.ask(cmd)\<close> and \<^verbatim>\<open>self.__instrument.write(cmd)\<close>: when the
  attribute holds \<^verbatim>\<open>None\<close> the method lookup raises \<^verbatim>\<open>AttributeError\<close> before anything
  is sent.
\<close>

definition instrument_ask ::
  "transport \<Rightarrow> handle option \<Rightarrow> string \<Rightarrow> world \<Rightarrow> (exn + string) \<times> world" where
  "instrument_ask tr inst cmd w =
     (case inst of
        None \<Rightarrow> (Inl AttributeError, w)
      | Some h \<Rightarrow> perform tr (Ask h cmd) w)"

definition instrument_write ::
  "transport \<Rightarrow> handle option \<Rightarrow> string \<Rightarrow> world \<Rightarrow> (exn + unit) \<times> world" where
  "instrument_write tr inst cmd w =
     (case inst of
        None \<Rightarrow> (Inl AttributeError, w)
      | Some h \<Rightarrow>
          (case perform tr (Write h cmd) w of
             (Inl e, w') \<Rightarrow> (Inl e, w')
           | (Inr _, w') \<Rightarrow> (Inr (), w')))"

text \<open>
  Modelled from the spec: the transport's \<^verbatim>\<open>close(handle) -> ()\<close>, which the
  specification lists without a failure outcome. The call is logged and returns.
\<close>

definition instrument_close :: "handle option \<Rightarrow> world \<Rightarrow> (exn + unit) \<times> world" where
  "instrument_close inst w =
     (case inst of
        None \<Rightarrow> (Inl AttributeError, w)
      | Some h \<Rightarrow> (Inr (), w @ [Close h]))"

section \<open>\<^verbatim>\<open>VNADriver\<close>\<close>

definition VNA_CAL_LOW :: int where "VNA_CAL_LOW = 0"
definition VNA_CAL_MID :: int where "VNA_CAL_MID = 1"
definition VNA_CAL_HIGH :: int where "VNA_CAL_HIGH = 2"
definition VNA_CAL_NO_DATA :: int where "VNA_CAL_NO_DATA = 3"

record driver =
  instrument :: "handle option"
  vna_connected :: bool
  vna_ip :: "string option"

text \<open>\<^verbatim>\<open>__init__\<close>\<close>

definition init :: driver where
  "init = \<lparr>instrument = None, vna_connected = False, vna_ip = None\<rparr>"

text \<open>
  The two \<^verbatim>\<open>except\<close> clauses of \<^verbatim>\<open>connect_to_vna\<close> for an exception raised by the
  transport: \<^verbatim>\<open>OSError\<close> is turned into a result, everything else propagates.
\<close>

definition connect_except :: "exn \<Rightarrow> exn + bool \<times> string" where
  "connect_except e =
     (if e = OSError then Inr (False, ''VNA connection error!'') else Inl e)"

definition connect_to_vna ::
  "transport \<Rightarrow> string \<Rightarrow> driver \<times> world \<Rightarrow> (exn + bool \<times> string) \<times> driver \<times> world" where
  "connect_to_vna tr ip_addr sw =
     (case sw of (s, w) \<Rightarrow>
        (case Instrument tr ip_addr w of
           (Inl e, w1) \<Rightarrow> (connect_except e, s, w1)
         | (Inr h, w1) \<Rightarrow>
             (let s1 = s\<lparr>instrument := Some h\<rparr> in
                (case instrument_ask tr (instrument s1) ''*IDN?'' w1 of
                   (Inl e, w2) \<Rightarrow> (connect_except e, s1, w2)
                 | (Inr response, w2) \<Rightarrow>
                     (case str_split (CHR '','') (str_remove (CHR 0x22) response) of
                        [] \<Rightarrow> (Inl IndexError, s1, w2)
                      | r0 # rest \<Rightarrow>
                          (if r0 \<noteq> ''Anritsu'' then
                             (Inr (False, ''Different device manufacturer and/or model!''), s1, w2)
                           else
                             (case rest of
                                [] \<Rightarrow> (Inl IndexError, s1, w2)
                              | r1 # _ \<Rightarrow>
                                  (if r1 \<noteq> ''MS2026C/2'' then
                                     (Inr (False, ''Different device manufacturer and/or model!''),
                                      s1, w2)
                                   else
                                     (Inr (True, ''Connected to VNA device''),
                                      s1\<lparr>vna_connected := True, vna_ip := Some ip_addr\<rparr>,
                                      w2)))))))))"

definition disconnect_from_vna ::
  "driver \<times> world \<Rightarrow> (exn + bool) \<times> driver \<times> world" where
  "disconnect_from_vna sw =
     (case sw of (s, w) \<Rightarrow>
        (case (if vna_connected s then instrument_close (instrument s) w else (Inr (), w)) of
           (Inl e, w1) \<Rightarrow> (Inl e, s, w1)
         | (Inr _, w1) \<Rightarrow>
             (Inr True, s\<lparr>vna_connected := False, vna_ip := None, instrument := None\<rparr>, w1)))"

definition test_connection ::
  "transport \<Rightarrow> driver \<times> world \<Rightarrow> (exn + bool) \<times> driver \<times> world" where
  "test_connection tr sw =
     (case sw of (s, w) \<Rightarrow>
        (case instrument_ask tr (instrument s) ''*IDN?'' w of
           (Inr _, w1) \<Rightarrow> (Inr True, s, w1)
         | (Inl e, w1) \<Rightarrow>
             (if e = Vxi11Exception \<or> e = OSError then (Inr False, s, w1)
              else (Inl e, s, w1))))"

definition check_calibration_status ::
  "transport \<Rightarrow> driver \<times> world \<Rightarrow> (exn + int) \<times> driver \<times> world" where
  "check_calibration_status tr sw =
     (case sw of (s, w) \<Rightarrow>
        (case instrument_ask tr (instrument s) '':SENS:CORR:COLL:STAT:ACC?'' w of
           (Inl e, w1) \<Rightarrow>
             (if e = Vxi11Exception then (Inr VNA_CAL_NO_DATA, s, w1) else (Inl e, s, w1))
         | (Inr r, w1) \<Rightarrow>
             (case py_int r of
                Inl e \<Rightarrow> (Inl e, s, w1)
              | Inr status \<Rightarrow>
                  (if status = 4 then (Inr VNA_CAL_LOW, s, w1)
                   else if status = 3 \<or> status = 2 then (Inr VNA_CAL_MID, s, w1)
                   else if status = 1 then (Inr VNA_CAL_HIGH, s, w1)
                   else if status = 0 then (Inr VNA_CAL_NO_DATA, s, w1)
                   else (Inr VNA_CAL_NO_DATA, s, w1)))))"

text \<open>
  The handler shared by \<^verbatim>\<open>set_frequency_sweep\<close> and \<^verbatim>\<open>set_trace\<close>:
  \<^verbatim>\<open>except Vxi11Exception: return False\<close>.
\<close>

definition write_except :: "exn \<Rightarrow> exn + bool" where
  "write_except e = (if e = Vxi11Exception then Inr False else Inl e)"

definition set_frequency_sweep ::
  "transport \<Rightarrow> int \<Rightarrow> int \<Rightarrow> int \<Rightarrow> driver \<times> world \<Rightarrow> (exn + bool) \<times> driver \<times> world" where
  "set_frequency_sweep tr f_start f_stop n_points sw =
     (case sw of (s, w) \<Rightarrow>
        (case instrument_write tr (instrument s) ('':SENS:FREQ:STAR '' @ py_str f_start) w of
           (Inl e, w1) \<Rightarrow> (write_except e, s, w1)
         | (Inr _, w1) \<Rightarrow>
             (case instrument_write tr (instrument s) ('':SENS:FREQ:STOP '' @ py_str f_stop) w1 of
                (Inl e, w2) \<Rightarrow> (write_except e, s, w2)
              | (Inr _, w2) \<Rightarrow>
                  (case instrument_write tr (instrument s) ('':SENS:SWE:POIN '' @ py_str n_points) w2 of
                     (Inl e, w3) \<Rightarrow> (write_except e, s, w3)
                   | (Inr _, w3) \<Rightarrow> (Inr True, s, w3)))))"

definition set_trace ::
  "transport \<Rightarrow> int \<Rightarrow> string \<Rightarrow> string \<Rightarrow> driver \<times> world \<Rightarrow> (exn + bool) \<times> driver \<times> world" where
  "set_trace tr n_trace s_param t_format sw =
     (case sw of (s, w) \<Rightarrow>
        (case instrument_write tr (instrument s)
                ('':SENS:TRACE'' @ py_str n_trace @ '':SPAR '' @ s_param) w of
           (Inl e, w1) \<Rightarrow> (write_except e, s, w1)
         | (Inr _, w1) \<Rightarrow>
             (case instrument_write tr (instrument s)
                     ('':CALC'' @ py_str n_trace @ '':FORM '' @ t_format) w1 of
                (Inl e, w2) \<Rightarrow> (write_except e, s, w2)
              | (Inr _, w2) \<Rightarrow> (Inr True, s, w2))))"

text \<open>
  The handler shared by \<^verbatim>\<open>get_trace\<close> and \<^verbatim>\<open>get_freq\<close>:
  \<^verbatim>\<open>except Vxi11Exception: return None\<close>.
\<close>

definition query_except :: "exn \<Rightarrow> exn + string option" where
  "query_except e = (if e = Vxi11Exception then Inr None else Inl e)"

definition get_trace ::
  "transport \<Rightarrow> int \<Rightarrow> driver \<times> world \<Rightarrow> (exn + string option) \<times> driver \<times> world" where
  "get_trace tr n_trace sw =
     (case sw of (s, w) \<Rightarrow>
        (case instrument_ask tr (instrument s) ('':CALC'' @ py_str n_trace @ '':DATA? SDAT'') w of
           (Inl e, w1) \<Rightarrow> (query_except e, s, w1)
         | (Inr r, w1) \<Rightarrow> (Inr (Some r), s, w1)))"

definition get_freq ::
  "transport \<Rightarrow> int \<Rightarrow> driver \<times> world \<Rightarrow> (exn + string option) \<times> driver \<times> world" where
  "get_freq tr n_trace sw =
     (case sw of (s, w) \<Rightarrow>
        (case instrument_ask tr (instrument s) ('':SENSE'' @ py_str n_trace @ '':FREQ:DATA?'') w of
           (Inl e, w1) \<Rightarrow> (query_except e, s, w1)
         | (Inr r, w1) \<Rightarrow> (Inr (Some r), s, w1)))"

section \<open>\<^verbatim>\<open>VNANode\<close>: the sweep-setup handler\<close>

text \<open>
  \<^verbatim>\<open>__freq_sweep_setup_handler\<close> of \<^verbatim>\<open>vna_node.py\<close>. The request carries
  \<^verbatim>\<open>freq_start\<close>, \<^verbatim>\<open>freq_stop\<close> and \<^verbatim>\<open>freq_points\<close>; the response carries one flag.
\<close>

record sweep_request =
  freq_start :: int
  freq_stop :: int
  freq_points :: int

definition freq_sweep_setup_handler ::
  "transport \<Rightarrow> sweep_request \<Rightarrow> driver \<times> world \<Rightarrow> (exn + bool) \<times> driver \<times> world" where
  "freq_sweep_setup_handler tr srv sw =
     (if freq_points srv < 0 \<or> freq_points srv > 4000 then (Inr False, sw)
      else if freq_stop srv < 0 then (Inr False, sw)
      else if freq_start srv > freq_stop srv \<or> freq_stop srv < 0 then (Inr False, sw)
      else
        (case set_frequency_sweep tr (freq_start srv) (freq_stop srv) (freq_points srv) sw of
           (Inl e, sw1) \<Rightarrow> (Inl e, sw1)
         | (Inr status, sw1) \<Rightarrow>
             (case set_trace tr 1 ''S21'' ''SMITh'' sw1 of
                (Inl e, sw2) \<Rightarrow> (Inl e, sw2)
              | (Inr _, sw2) \<Rightarrow> (Inr status, sw2))))"

section \<open>Example transports and sessions\<close>

text \<open>
  Three transports that answer every call the same way, an identity string of the expected
  device, and the session and call log reached by connecting to it from a fresh driver.
\<close>

definition always_reply :: "string \<Rightarrow> transport" where
  "always_reply r w c = Reply r"

definition always_vxi11 :: transport where
  "always_vxi11 w c = Vxi11Failure"

definition always_socket :: transport where
  "always_socket w c = SocketFailure"

definition idn_reply :: string where
  "idn_reply = ''Anritsu,MS2026C/2,1234567,V1.23''"

definition session0 :: driver where
  "session0 = \<lparr>instrument = Some 0, vna_connected = True, vna_ip = Some ''192.168.0.10''\<rparr>"

definition log0 :: world where
  "log0 = [Open ''192.168.0.10'', Ask 0 ''*IDN?'']"

section \<open>Evaluation lemmas\<close>

lemmas transport_defs = perform_def Instrument_def instrument_ask_def instrument_write_def
  instrument_close_def

lemmas fixture_defs = always_reply_def always_vxi11_def always_socket_def idn_reply_def
  session0_def log0_def

lemma py_str_examples:
  "py_str 1 = ''1''" "py_str (- 5) = ''-5''" "py_str 10 = ''10''"
  "py_str 100 = ''100''" "py_str 50 = ''50''"
  by (simp_all add: py_str_def digits_of.simps digit_char_def)

lemma py_int_examples:
  "py_int ''4'' = Inr 4" "py_int ''1'' = Inr 1" "py_int ''3'' = Inr 3"
  "py_int ''9'' = Inr 9" "py_int ''abc'' = Inl ValueError"
  by (simp_all add: py_int_def str_strip_def is_space_def parse_unsigned_def digit_val_def)

lemma session0_reached:
  "connect_to_vna (always_reply idn_reply) ''192.168.0.10'' (init, []) =
     (Inr (True, ''Connected to VNA device''), session0, log0)"
  by (simp add: connect_to_vna_def transport_defs fixture_defs init_def str_remove_def)

lemma frame_check: "fst (snd (check_calibration_status tr (s, w))) = s"
  by (simp add: check_calibration_status_def split: prod.splits sum.splits)

lemma frame_sweep: "fst (snd (set_frequency_sweep tr a b c (s, w))) = s"
  by (simp add: set_frequency_sweep_def split: prod.splits sum.splits)

lemma frame_trace: "fst (snd (set_trace tr n p f (s, w))) = s"
  by (simp add: set_trace_def split: prod.splits sum.splits)

lemma frame_get_trace: "fst (snd (get_trace tr n (s, w))) = s"
  by (simp add: get_trace_def split: prod.splits sum.splits)

lemma frame_get_freq: "fst (snd (get_freq tr n (s, w))) = s"
  by (simp add: get_freq_def split: prod.splits sum.splits)

lemma frame_test: "fst (snd (test_connection tr (s, w))) = s"
  by (simp add: test_connection_def split: prod.splits sum.splits)

lemma str_split_nonempty: "str_split ch r \<noteq> []"
  by (induction r) (auto split: list.splits)

lemma connect_keeps_handle:
  assumes "vna_connected s \<longrightarrow> instrument s \<noteq> None"
  shows "vna_connected (fst (snd (connect_to_vna tr ip_addr (s, w)))) \<longrightarrow>
         instrument (fst (snd (connect_to_vna tr ip_addr (s, w)))) \<noteq> None"
  using assms
  by (auto simp add: connect_to_vna_def Let_def split: prod.splits sum.splits list.splits)

lemma split_examples:
  "str_split (CHR '','') (str_remove (CHR 0x22) idn_reply) =
     ''Anritsu'' # ''MS2026C/2'' # [''1234567'', ''V1.23'']"
  "str_split (CHR '','') (str_remove (CHR 0x22) ''Other,Model,1,2'') =
     ''Other'' # [''Model'', ''1'', ''2'']"
  by (simp_all add: str_remove_def idn_reply_def)

section \<open>What each operation does with a reply and with a \<^verbatim>\<open>Vxi11Exception\<close>\<close>

lemma check_calibration_status_code:
  assumes "instrument s = Some h"
    and "tr w (Ask h '':SENS:CORR:COLL:STAT:ACC?'') = Reply r"
    and "py_int r = Inr c"
  shows "check_calibration_status tr (s, w) =
     (Inr (if c = 4 then VNA_CAL_LOW else if c = 3 \<or> c = 2 then VNA_CAL_MID
           else if c = 1 then VNA_CAL_HIGH else VNA_CAL_NO_DATA),
      s, w @ [Ask h '':SENS:CORR:COLL:STAT:ACC?''])"
  using assms by (simp add: check_calibration_status_def transport_defs)

lemma check_calibration_status_vxi11:
  assumes "instrument s = Some h"
    and "tr w (Ask h '':SENS:CORR:COLL:STAT:ACC?'') = Vxi11Failure"
  shows "check_calibration_status tr (s, w) =
     (Inr VNA_CAL_NO_DATA, s, w @ [Ask h '':SENS:CORR:COLL:STAT:ACC?''])"
  using assms by (simp add: check_calibration_status_def transport_defs)

lemma check_calibration_status_range:
  "fst (check_calibration_status tr (s, w)) = Inr v \<Longrightarrow>
     v \<in> {VNA_CAL_LOW, VNA_CAL_MID, VNA_CAL_HIGH, VNA_CAL_NO_DATA}"
  by (auto simp add: check_calibration_status_def split: prod.splits sum.splits if_splits)

lemma set_frequency_sweep_success:
  assumes "instrument s = Some h"
    and "tr w (Write h ('':SENS:FREQ:STAR '' @ py_str f_start)) = Reply x1"
    and "tr (w @ [Write h ('':SENS:FREQ:STAR '' @ py_str f_start)])
           (Write h ('':SENS:FREQ:STOP '' @ py_str f_stop)) = Reply x2"
    and "tr (w @ [Write h ('':SENS:FREQ:STAR '' @ py_str f_start),
                  Write h ('':SENS:FREQ:STOP '' @ py_str f_stop)])
           (Write h ('':SENS:SWE:POIN '' @ py_str n_points)) = Reply x3"
  shows "set_frequency_sweep tr f_start f_stop n_points (s, w) =
     (Inr True, s,
      w @ [Write h ('':SENS:FREQ:STAR '' @ py_str f_start),
           Write h ('':SENS:FREQ:STOP '' @ py_str f_stop),
           Write h ('':SENS:SWE:POIN '' @ py_str n_points)])"
  using assms by (simp add: set_frequency_sweep_def transport_defs)

lemma set_frequency_sweep_vxi11_first:
  assumes "instrument s = Some h"
    and "tr w (Write h ('':SENS:FREQ:STAR '' @ py_str f_start)) = Vxi11Failure"
  shows "set_frequency_sweep tr f_start f_stop n_points (s, w) =
     (Inr False, s, w @ [Write h ('':SENS:FREQ:STAR '' @ py_str f_start)])"
  using assms by (simp add: set_frequency_sweep_def write_except_def transport_defs)

lemma set_frequency_sweep_vxi11_second:
  assumes "instrument s = Some h"
    and "tr w (Write h ('':SENS:FREQ:STAR '' @ py_str f_start)) = Reply x1"
    and "tr (w @ [Write h ('':SENS:FREQ:STAR '' @ py_str f_start)])
           (Write h ('':SENS:FREQ:STOP '' @ py_str f_stop)) = Vxi11Failure"
  shows "set_frequency_sweep tr f_start f_stop n_points (s, w) =
     (Inr False, s,
      w @ [Write h ('':SENS:FREQ:STAR '' @ py_str f_start),
           Write h ('':SENS:FREQ:STOP '' @ py_str f_stop)])"
  using assms by (simp add: set_frequency_sweep_def write_except_def transport_defs)

lemma set_frequency_sweep_vxi11_third:
  assumes "instrument s = Some h"
    and "tr w (Write h ('':SENS:FREQ:STAR '' @ py_str f_start)) = Reply x1"
    and "tr (w @ [Write h ('':SENS:FREQ:STAR '' @ py_str f_start)])
           (Write h ('':SENS:FREQ:STOP '' @ py_str f_stop)) = Reply x2"
    and "tr (w @ [Write h ('':SENS:FREQ:STAR '' @ py_str f_start),
                  Write h ('':SENS:FREQ:STOP '' @ py_str f_stop)])
           (Write h ('':SENS:SWE:POIN '' @ py_str n_points)) = Vxi11Failure"
  shows "set_frequency_sweep tr f_start f_stop n_points (s, w) =
     (Inr False, s,
      w @ [Write h ('':SENS:FREQ:STAR '' @ py_str f_start),
           Write h ('':SENS:FREQ:STOP '' @ py_str f_stop),
           Write h ('':SENS:SWE:POIN '' @ py_str n_points)])"
  using assms by (simp add: set_frequency_sweep_def write_except_def transport_defs)

lemma freq_sweep_setup_handler_rejects:
  assumes "freq_points srv < 0 \<or> 4000 < freq_points srv \<or> freq_stop srv < 0 \<or>
           freq_stop srv < freq_start srv"
  shows "freq_sweep_setup_handler tr srv sw = (Inr False, sw)"
  using assms by (auto simp add: freq_sweep_setup_handler_def)

lemma check_calibration_status_table:
  "fst (check_calibration_status (always_reply ''4'') (session0, log0)) = Inr VNA_CAL_LOW"
  "fst (check_calibration_status (always_reply ''3'') (session0, log0)) = Inr VNA_CAL_MID"
  "fst (check_calibration_status (always_reply ''2'') (session0, log0)) = Inr VNA_CAL_MID"
  "fst (check_calibration_status (always_reply ''1'') (session0, log0)) = Inr VNA_CAL_HIGH"
  "fst (check_calibration_status (always_reply ''0'') (session0, log0)) = Inr VNA_CAL_NO_DATA"
  "fst (check_calibration_status (always_reply ''9'') (session0, log0)) = Inr VNA_CAL_NO_DATA"
  "fst (check_calibration_status always_vxi11 (session0, log0)) = Inr VNA_CAL_NO_DATA"
  by (simp_all add: check_calibration_status_def transport_defs fixture_defs py_int_def
      str_strip_def is_space_def parse_unsigned_def digit_val_def)

lemma get_trace_reply:
  assumes "instrument s = Some h"
    and "tr w (Ask h ('':CALC'' @ py_str n_trace @ '':DATA? SDAT'')) = Reply r"
  shows "get_trace tr n_trace (s, w) =
     (Inr (Some r), s, w @ [Ask h ('':CALC'' @ py_str n_trace @ '':DATA? SDAT'')])"
  using assms by (simp add: get_trace_def transport_defs)

lemma get_trace_vxi11:
  assumes "instrument s = Some h"
    and "tr w (Ask h ('':CALC'' @ py_str n_trace @ '':DATA? SDAT'')) = Vxi11Failure"
  shows "get_trace tr n_trace (s, w) =
     (Inr None, s, w @ [Ask h ('':CALC'' @ py_str n_trace @ '':DATA? SDAT'')])"
  using assms by (simp add: get_trace_def query_except_def transport_defs)

lemma get_freq_reply:
  assumes "instrument s = Some h"
    and "tr w (Ask h ('':SENSE'' @ py_str n_trace @ '':FREQ:DATA?'')) = Reply r"
  shows "get_freq tr n_trace (s, w) =
     (Inr (Some r), s, w @ [Ask h ('':SENSE'' @ py_str n_trace @ '':FREQ:DATA?'')])"
  using assms by (simp add: get_freq_def transport_defs)

lemma get_freq_vxi11:
  assumes "instrument s = Some h"
    and "tr w (Ask h ('':SENSE'' @ py_str n_trace @ '':FREQ:DATA?'')) = Vxi11Failure"
  shows "get_freq tr n_trace (s, w) =
     (Inr None, s, w @ [Ask h ('':SENSE'' @ py_str n_trace @ '':FREQ:DATA?'')])"
  using assms by (simp add: get_freq_def query_except_def transport_defs)

lemma connect_to_vna_match:
  assumes "tr w (Open ip_addr) = Reply x"
    and "tr (w @ [Open ip_addr]) (Ask (length w) ''*IDN?'') = Reply r"
    and "str_split (CHR '','') (str_remove (CHR 0x22) r) = ''Anritsu'' # ''MS2026C/2'' # rest"
  shows "connect_to_vna tr ip_addr (s, w) =
     (Inr (True, ''Connected to VNA device''),
      s\<lparr>instrument := Some (length w), vna_connected := True, vna_ip := Some ip_addr\<rparr>,
      w @ [Open ip_addr, Ask (length w) ''*IDN?''])"
  using assms by (simp add: connect_to_vna_def transport_defs Let_def)

lemma connect_to_vna_mismatch_disconnected:
  assumes "tr w (Open ip_addr) = Reply x"
    and "tr (w @ [Open ip_addr]) (Ask (length w) ''*IDN?'') = Reply r"
    and "str_split (CHR '','') (str_remove (CHR 0x22) r) = r0 # rest"
    and "r0 \<noteq> ''Anritsu'' \<or> (\<exists>r1 rest'. rest = r1 # rest' \<and> r1 \<noteq> ''MS2026C/2'')"
    and "vna_connected s = False"
  shows "fst (connect_to_vna tr ip_addr (s, w)) =
           Inr (False, ''Different device manufacturer and/or model!'') \<and>
         vna_connected (fst (snd (connect_to_vna tr ip_addr (s, w)))) = False"
  using assms by (auto simp add: connect_to_vna_def transport_defs Let_def)

lemma connect_to_vna_examples:
  "connect_to_vna (always_reply idn_reply) ''192.168.0.10'' (init, []) =
     (Inr (True, ''Connected to VNA device''), session0, log0)"
  "connect_to_vna (always_reply ''Other,Model,1,2'') ''192.168.0.10'' (init, []) =
     (Inr (False, ''Different device manufacturer and/or model!''),
      \<lparr>instrument = Some 0, vna_connected = False, vna_ip = None\<rparr>, log0)"
  by (simp_all add: connect_to_vna_def transport_defs fixture_defs init_def str_remove_def)

section \<open>Properties of the driver and of the sweep-setup handler\<close>

text \<open>
  C1. The claim: every integer device code is mapped 4 to LOW, 3 and 2 to MID, 1 to HIGH,
  0 and any other integer to NO_DATA, and any transport failure during the query yields
  NO_DATA. The mapping of the codes and of a \<^verbatim>\<open>Vxi11Exception\<close> is as claimed
  (\<open>check_calibration_status_code\<close>, \<open>check_calibration_status_vxi11\<close>,
  \<open>check_calibration_status_table\<close>). A socket failure of the query is a transport
  failure too, and \<^verbatim>\<open>check_calibration_status\<close> catches only \<^verbatim>\<open>Vxi11Exception\<close>: on
  the connected session, with a transport whose query fails at socket level, the method
  raises \<^verbatim>\<open>OSError\<close> instead of returning NO_DATA.
\<close>

theorem check_calibration_status_socket_failure:
  "check_calibration_status always_socket (session0, log0) =
     (Inl OSError, session0, log0 @ [Ask 0 '':SENS:CORR:COLL:STAT:ACC?''])"
  by (simp add: check_calibration_status_def transport_defs fixture_defs)

text \<open>
  C2. The claim: every driver operation returns a normal result for every transport
  outcome, and no exception leaves the driver. Evaluated on the code: a calibration reply
  that is not a number raises \<^verbatim>\<open>ValueError\<close>; \<^verbatim>\<open>test_connection\<close> on a driver that never
  connected raises \<^verbatim>\<open>AttributeError\<close>; a \<^verbatim>\<open>Vxi11Exception\<close> during \<^verbatim>\<open>connect_to_vna\<close>
  is not caught there; an identity string with the single field Anritsu raises
  \<^verbatim>\<open>IndexError\<close>; a socket failure during \<^verbatim>\<open>set_trace\<close> raises \<^verbatim>\<open>OSError\<close>.
\<close>

theorem driver_exceptions_escape:
  "fst (check_calibration_status (always_reply ''abc'') (session0, log0)) = Inl ValueError \<and>
   fst (test_connection (always_reply '''') (init, [])) = Inl AttributeError \<and>
   fst (connect_to_vna always_vxi11 ''192.168.0.10'' (init, [])) = Inl Vxi11Exception \<and>
   fst (connect_to_vna (always_reply ''Anritsu'') ''192.168.0.10'' (init, [])) = Inl IndexError \<and>
   fst (set_trace always_socket 1 ''S21'' ''SMITh'' (session0, log0)) = Inl OSError"
  by (simp add: check_calibration_status_def test_connection_def connect_to_vna_def set_trace_def
      connect_except_def write_except_def transport_defs fixture_defs init_def str_remove_def
      py_int_examples py_str_examples)

text \<open>
  C3. The claim: for every session state and every address, \<^verbatim>\<open>connect_to_vna\<close> returns
  true and leaves the session connected with the address recorded when the identity string
  names Anritsu and MS2026C/2, and for any other identity string returns false and leaves
  the session disconnected. The first half holds (\<open>connect_to_vna_match\<close>), and a
  mismatch met by a disconnected session leaves it disconnected
  (\<open>connect_to_vna_mismatch_disconnected\<close>). On a connected session the second half
  fails: the new handle is stored before the identity is checked and the failure path
  resets nothing, so after connecting to a device of another make the driver answers false
  but is still marked connected, with the old address and the handle of the rejected
  device. The identity string Anritsu alone, with no second field, does not give false
  either: it raises \<^verbatim>\<open>IndexError\<close>.
\<close>

theorem connect_to_vna_mismatch_stale_session:
  "connect_to_vna (always_reply ''Other,Model,1,2'') ''192.168.0.11'' (session0, log0) =
     (Inr (False, ''Different device manufacturer and/or model!''),
      \<lparr>instrument = Some 2, vna_connected = True, vna_ip = Some ''192.168.0.10''\<rparr>,
      log0 @ [Open ''192.168.0.11'', Ask 2 ''*IDN?'']) \<and>
   connect_to_vna (always_reply ''Anritsu'') ''192.168.0.11'' (init, []) =
     (Inl IndexError,
      \<lparr>instrument = Some 0, vna_connected = False, vna_ip = None\<rparr>,
      [Open ''192.168.0.11'', Ask 0 ''*IDN?''])"
  by (simp add: connect_to_vna_def transport_defs fixture_defs init_def str_remove_def)

text \<open>
  C4. The claim: \<^verbatim>\<open>set_frequency_sweep\<close> writes start, stop and point count in this
  order with the values as given, returns true exactly when the three writes succeed, and
  on the first transport failure returns false and writes nothing more. The order, the
  pass-through and the stop at the first failure are as claimed
  (\<open>set_frequency_sweep_success\<close>, \<open>set_frequency_sweep_vxi11_first\<close>,
  \<open>set_frequency_sweep_vxi11_second\<close>, \<open>set_frequency_sweep_vxi11_third\<close>). When the
  failure is a socket failure, nothing more is written, but the method raises
  \<^verbatim>\<open>OSError\<close> instead of returning false.
\<close>

theorem set_frequency_sweep_socket_failure:
  "set_frequency_sweep always_socket 100 50 10 (session0, log0) =
     (Inl OSError, session0, log0 @ [Write 0 '':SENS:FREQ:STAR 100''])"
  by (simp add: set_frequency_sweep_def write_except_def transport_defs fixture_defs
      py_str_examples)

text \<open>
  C5. On a session whose connected flag is set only while a handle is held (true of
  every session reached from a fresh driver, see \<open>connect_keeps_handle\<close>),
  \<^verbatim>\<open>disconnect_from_vna\<close> returns true and leaves the connected flag false, the address
  empty and the handle empty. On a session that is already so, it returns true, changes
  nothing and closes nothing; a second call after a first one therefore does nothing.
\<close>

theorem disconnect_from_vna_clears:
  assumes "vna_connected s \<longrightarrow> instrument s \<noteq> None"
  shows "fst (disconnect_from_vna (s, w)) = Inr True \<and>
    vna_connected (fst (snd (disconnect_from_vna (s, w)))) = False \<and>
    vna_ip (fst (snd (disconnect_from_vna (s, w)))) = None \<and>
    instrument (fst (snd (disconnect_from_vna (s, w)))) = None \<and>
    (\<not> vna_connected s \<and> vna_ip s = None \<and> instrument s = None \<longrightarrow>
       disconnect_from_vna (s, w) = (Inr True, s, w)) \<and>
    disconnect_from_vna (snd (disconnect_from_vna (s, w))) =
      (Inr True, snd (disconnect_from_vna (s, w)))"
  using assms
  by (auto simp add: disconnect_from_vna_def transport_defs split: prod.splits sum.splits)

theorem disconnect_from_vna_clears_witness:
  "vna_connected session0 \<and> instrument session0 = Some 0 \<and>
   fst (disconnect_from_vna (session0, log0)) = Inr True \<and>
   vna_connected (fst (snd (disconnect_from_vna (session0, log0)))) = False \<and>
   vna_ip (fst (snd (disconnect_from_vna (session0, log0)))) = None \<and>
   instrument (fst (snd (disconnect_from_vna (session0, log0)))) = None \<and>
   vna_connected init = False \<and> vna_ip init = None \<and> instrument init = None \<and>
   disconnect_from_vna (init, log0) = (Inr True, init, log0)"
proof -
  have f0: "vna_connected session0 \<and> instrument session0 = Some 0"
    by (simp add: session0_def)
  have f1: "vna_connected init = False \<and> vna_ip init = None \<and> instrument init = None"
    by (simp add: init_def)
  from f0 have h0: "vna_connected session0 \<longrightarrow> instrument session0 \<noteq> None"
    by simp
  from f1 have h1: "vna_connected init \<longrightarrow> instrument init \<noteq> None"
    by simp
  from f1 disconnect_from_vna_clears [OF h1, of log0]
  have "disconnect_from_vna (init, log0) = (Inr True, init, log0)"
    by simp
  with f0 f1 disconnect_from_vna_clears [OF h0, of log0] show ?thesis
    by simp
qed

text \<open>
  C6. The claim: \<^verbatim>\<open>get_trace\<close> and \<^verbatim>\<open>get_freq\<close> issue one query for the trace number,
  return the reply as it is (an empty reply as the empty string) and return \<^verbatim>\<open>None\<close> on
  any transport failure, without retrying. The single query, the verbatim reply and
  \<^verbatim>\<open>None\<close> on a \<^verbatim>\<open>Vxi11Exception\<close> are as claimed (\<open>get_trace_reply\<close>,
  \<open>get_trace_vxi11\<close>, \<open>get_freq_reply\<close>, \<open>get_freq_vxi11\<close>). When the query fails at
  socket level both methods raise \<^verbatim>\<open>OSError\<close> instead of returning \<^verbatim>\<open>None\<close>.
\<close>

theorem get_trace_get_freq_socket_failure:
  "get_trace always_socket 1 (session0, log0) =
     (Inl OSError, session0, log0 @ [Ask 0 '':CALC1:DATA? SDAT'']) \<and>
   get_freq always_socket 1 (session0, log0) =
     (Inl OSError, session0, log0 @ [Ask 0 '':SENSE1:FREQ:DATA?''])"
  by (simp add: get_trace_def get_freq_def query_except_def transport_defs fixture_defs
      py_str_examples)

text \<open>
  C7. For every session state \<^verbatim>\<open>test_connection\<close> leaves the connected flag, the address
  and the handle unchanged; when the session holds a handle, it returns true if the
  identification query is answered, whatever the answer, and false if the query raises a
  \<^verbatim>\<open>Vxi11Exception\<close> or a socket failure.
\<close>

theorem test_connection_result_and_frame:
  "fst (snd (test_connection tr (s, w))) = s \<and>
   (\<forall>h r. instrument s = Some h \<and> tr w (Ask h ''*IDN?'') = Reply r \<longrightarrow>
        fst (test_connection tr (s, w)) = Inr True) \<and>
   (\<forall>h. instrument s = Some h \<and>
        (tr w (Ask h ''*IDN?'') = Vxi11Failure \<or> tr w (Ask h ''*IDN?'') = SocketFailure) \<longrightarrow>
        fst (test_connection tr (s, w)) = Inr False)"
  by (auto simp add: test_connection_def transport_defs split: prod.splits sum.splits)

theorem test_connection_result_and_frame_witness:
  "instrument session0 = Some 0 \<and>
   always_reply '''' log0 (Ask 0 ''*IDN?'') = Reply '''' \<and>
   always_socket log0 (Ask 0 ''*IDN?'') = SocketFailure \<and>
   always_vxi11 log0 (Ask 0 ''*IDN?'') = Vxi11Failure \<and>
   fst (test_connection (always_reply '''') (session0, log0)) = Inr True \<and>
   fst (test_connection always_socket (session0, log0)) = Inr False \<and>
   fst (test_connection always_vxi11 (session0, log0)) = Inr False \<and>
   fst (snd (test_connection always_socket (session0, log0))) = session0"
proof -
  have h: "instrument session0 = Some 0"
    "always_reply '''' log0 (Ask 0 ''*IDN?'') = Reply ''''"
    "always_socket log0 (Ask 0 ''*IDN?'') = SocketFailure"
    "always_vxi11 log0 (Ask 0 ''*IDN?'') = Vxi11Failure"
    by (simp_all add: session0_def always_reply_def always_socket_def always_vxi11_def)
  show ?thesis
    using h test_connection_result_and_frame [of "always_reply ''''" session0 log0]
      test_connection_result_and_frame [of always_socket session0 log0]
      test_connection_result_and_frame [of always_vxi11 session0 log0]
    by blast
qed

text \<open>
  C8. The claim: the sweep-setup handler calls the driver only when the point count is
  within bounds and both frequencies are non-negative with start at most stop, and answers
  false without calling the driver otherwise, a negative start frequency included. A
  request out of the ranges the handler tests is answered so
  (\<open>freq_sweep_setup_handler_rejects\<close>). The third check of the handler tests the stop
  frequency a second time where the start frequency was meant: a request with start
  frequency -5, stop frequency 10 and 100 points passes the checks, and the driver writes
  the negative start frequency to the device.
\<close>

theorem freq_sweep_setup_handler_negative_start:
  "freq_sweep_setup_handler (always_reply '''')
     \<lparr>freq_start = - 5, freq_stop = 10, freq_points = 100\<rparr> (session0, log0) =
   (Inr True, session0,
    log0 @ [Write 0 '':SENS:FREQ:STAR -5'', Write 0 '':SENS:FREQ:STOP 10'',
            Write 0 '':SENS:SWE:POIN 100'', Write 0 '':SENS:TRACE1:SPAR S21'',
            Write 0 '':CALC1:FORM SMITh''])"
  by (simp add: freq_sweep_setup_handler_def set_frequency_sweep_def set_trace_def
      transport_defs fixture_defs py_str_examples)

text \<open>
  C9. For every session state, transport and arguments, \<^verbatim>\<open>check_calibration_status\<close>,
  \<^verbatim>\<open>set_frequency_sweep\<close>, \<^verbatim>\<open>set_trace\<close>, \<^verbatim>\<open>get_trace\<close> and \<^verbatim>\<open>get_freq\<close> leave the
  connected flag, the address and the handle as they were, whether they return or raise;
  so does \<^verbatim>\<open>test_connection\<close>, which leaves \<^verbatim>\<open>connect_to_vna\<close> and
  \<^verbatim>\<open>disconnect_from_vna\<close> as the only operations that change the session; both do, as
  connecting a fresh driver and disconnecting the connected session show.
\<close>

theorem queries_and_settings_frame:
  "fst (snd (check_calibration_status tr (s, w))) = s \<and>
   fst (snd (set_frequency_sweep tr f_start f_stop n_points (s, w))) = s \<and>
   fst (snd (set_trace tr n_trace s_param t_format (s, w))) = s \<and>
   fst (snd (get_trace tr n_trace (s, w))) = s \<and>
   fst (snd (get_freq tr n_trace (s, w))) = s \<and>
   fst (snd (test_connection tr (s, w))) = s \<and>
   fst (snd (connect_to_vna (always_reply idn_reply) ''192.168.0.10'' (init, []))) \<noteq> init \<and>
   fst (snd (disconnect_from_vna (session0, log0))) \<noteq> session0"
proof -
  have "fst (snd (connect_to_vna (always_reply idn_reply) ''192.168.0.10'' (init, []))) = session0"
    by (simp add: session0_reached)
  moreover have "session0 \<noteq> init"
    by (simp add: session0_def init_def)
  moreover have "fst (snd (disconnect_from_vna (session0, log0))) = init"
    by (simp add: disconnect_from_vna_def transport_defs session0_def init_def)
  ultimately show ?thesis
    by (simp add: frame_check frame_sweep frame_trace frame_get_trace frame_get_freq frame_test)
qed

text \<open>
  C10. Whatever \<^verbatim>\<open>check_calibration_status\<close> returns is one of the four module constants
  0 (LOW), 1 (MID), 2 (HIGH) and 3 (NO_DATA). For every reply that reads as an integer
  device code it does return, and the value returned differs from the device code; device
  code 4 gives 0 and device code 1 gives 2.
\<close>

theorem check_calibration_status_constants:
  "(\<forall>v. fst (check_calibration_status tr (s, w)) = Inr v \<longrightarrow>
        v \<in> {VNA_CAL_LOW, VNA_CAL_MID, VNA_CAL_HIGH, VNA_CAL_NO_DATA} \<and> v \<in> {0, 1, 2, 3}) \<and>
   (\<forall>h r c. instrument s = Some h \<and>
        tr w (Ask h '':SENS:CORR:COLL:STAT:ACC?'') = Reply r \<and> py_int r = Inr c \<longrightarrow>
        (\<exists>v. fst (check_calibration_status tr (s, w)) = Inr v \<and> v \<in> {0, 1, 2, 3} \<and> v \<noteq> c \<and>
             (c = 4 \<longrightarrow> v = 0) \<and> (c = 1 \<longrightarrow> v = 2)))"
proof -
  have range: "\<forall>v. fst (check_calibration_status tr (s, w)) = Inr v \<longrightarrow>
        v \<in> {VNA_CAL_LOW, VNA_CAL_MID, VNA_CAL_HIGH, VNA_CAL_NO_DATA} \<and> v \<in> {0, 1, 2, 3}"
  proof (intro allI impI)
    fix v assume "fst (check_calibration_status tr (s, w)) = Inr v"
    from check_calibration_status_range [OF this]
    show "v \<in> {VNA_CAL_LOW, VNA_CAL_MID, VNA_CAL_HIGH, VNA_CAL_NO_DATA} \<and> v \<in> {0, 1, 2, 3}"
      by (simp add: VNA_CAL_LOW_def VNA_CAL_MID_def VNA_CAL_HIGH_def VNA_CAL_NO_DATA_def)
  qed
  have codes: "\<forall>h r c. instrument s = Some h \<and>
        tr w (Ask h '':SENS:CORR:COLL:STAT:ACC?'') = Reply r \<and> py_int r = Inr c \<longrightarrow>
        (\<exists>v. fst (check_calibration_status tr (s, w)) = Inr v \<and> v \<in> {0, 1, 2, 3} \<and> v \<noteq> c \<and>
             (c = 4 \<longrightarrow> v = 0) \<and> (c = 1 \<longrightarrow> v = 2))"
  proof (intro allI impI)
    fix h r c
    assume "instrument s = Some h \<and>
        tr w (Ask h '':SENS:CORR:COLL:STAT:ACC?'') = Reply r \<and> py_int r = Inr c"
    then have "check_calibration_status tr (s, w) =
       (Inr (if c = 4 then VNA_CAL_LOW else if c = 3 \<or> c = 2 then VNA_CAL_MID
             else if c = 1 then VNA_CAL_HIGH else VNA_CAL_NO_DATA),
        s, w @ [Ask h '':SENS:CORR:COLL:STAT:ACC?''])"
      by (simp add: check_calibration_status_code)
    then show "\<exists>v. fst (check_calibration_status tr (s, w)) = Inr v \<and> v \<in> {0, 1, 2, 3} \<and>
        v \<noteq> c \<and> (c = 4 \<longrightarrow> v = 0) \<and> (c = 1 \<longrightarrow> v = 2)"
      by (simp add: VNA_CAL_LOW_def VNA_CAL_MID_def VNA_CAL_HIGH_def VNA_CAL_NO_DATA_def)
  qed
  from range codes show ?thesis by (rule conjI)
qed

theorem check_calibration_status_constants_witness:
  "instrument session0 = Some 0 \<and>
   always_reply ''4'' log0 (Ask 0 '':SENS:CORR:COLL:STAT:ACC?'') = Reply ''4'' \<and>
   py_int ''4'' = Inr 4 \<and>
   fst (check_calibration_status (always_reply ''4'') (session0, log0)) = Inr 0"
proof -
  have h: "instrument session0 = Some 0 \<and>
    always_reply ''4'' log0 (Ask 0 '':SENS:CORR:COLL:STAT:ACC?'') = Reply ''4'' \<and>
    py_int ''4'' = Inr 4"
    by (simp add: session0_def always_reply_def py_int_examples)
  from check_calibration_status_constants [of "always_reply ''4''" session0 log0] h
  have "\<exists>v. fst (check_calibration_status (always_reply ''4'') (session0, log0)) = Inr v \<and>
      v \<in> {0, 1, 2, 3} \<and> v \<noteq> 4 \<and> (4 = (4::int) \<longrightarrow> v = 0) \<and> (4 = (1::int) \<longrightarrow> v = 2)"
    by blast
  then have "fst (check_calibration_status (always_reply ''4'') (session0, log0)) = Inr 0"
    by auto
  with h show ?thesis by simp
qed

end
